theory Spec2Isabelle
  imports Complex_Main "HOL-Library.Char_ord" "HOL-Library.List_Lexorder"
begin

section \<open>Values and exceptions of the JavaScript code\<close>

text \<open>
  An exception is a value: \<open>TypeError\<close> is what the runtime raises when a property of
  \<open>null\<close> or \<open>undefined\<close> is read, \<open>GeometryError\<close> stands for any exception thrown by
  a primitive of the geometry library, \<open>StorageError\<close> for one thrown by the durable
  store and \<open>SyntaxError\<close> for one thrown by \<open>JSON.parse\<close>.
\<close>

datatype error = TypeError | GeometryError | StorageError | SyntaxError

text \<open>
  A property that holds a string or is absent. \<open>None\<close> is an absent (\<open>undefined\<close>)
  property. A value is truthy when it is a non-empty string.
\<close>

type_synonym jsstring = "string option"

definition truthy :: "jsstring \<Rightarrow> bool" where
  "truthy v = (case v of None \<Rightarrow> False | Some s \<Rightarrow> s \<noteq> [])"

text \<open>\<open>a || b\<close> is \<open>a\<close> when \<open>a\<close> is truthy and \<open>b\<close> otherwise.\<close>

definition js_or :: "jsstring \<Rightarrow> jsstring \<Rightarrow> jsstring" where
  "js_or a b = (if truthy a then a else b)"

text \<open>\<open>a || 'literal'\<close>: the result is always a string.\<close>

definition js_or_lit :: "jsstring \<Rightarrow> string \<Rightarrow> string" where
  "js_or_lit a s = (case a of None \<Rightarrow> s | Some t \<Rightarrow> if t \<noteq> [] then t else s)"

section \<open>Countries\<close>

text \<open>
  The \<open>properties\<close> object of a country feature, with the name fields the code reads,
  and the feature itself. A GeoJSON feature may carry \<open>properties: null\<close>, which is
  \<open>None\<close> here. The geometry is whatever the geometry library accepts.
\<close>

record properties =
  name :: jsstring
  NAME :: jsstring
  ADMIN :: jsstring
  NAME_EN :: jsstring
  NAME_LONG :: jsstring

record 'g country =
  geometry :: 'g
  properties :: "properties option"

section \<open>The scratch map of \<open>Globe.jsx\<close>\<close>

text \<open>
  \<open>getCountryId\<close> (lines 36 to 42) reads \<open>country.properties.name\<close> and so on without
  optional chaining: on \<open>properties: null\<close> it raises.
\<close>

definition getCountryId :: "'g country \<Rightarrow> error + string" where
  "getCountryId c =
     (case properties c of
        None \<Rightarrow> Inl TypeError
      | Some p \<Rightarrow> Inr (js_or_lit (js_or (js_or (js_or (name p) (NAME p)) (ADMIN p)) (NAME_EN p)) ''unknown''))"

text \<open>
  The component state the handlers touch (lines 10 and 11), and the events the
  component listens to (lines 155 to 157, 171 and 172). A hover or a click carries
  the polygon under the pointer, or \<open>null\<close> (\<open>None\<close>).
\<close>

record scratch_state =
  scratchedCountries :: "string set"
  isDragging :: bool

datatype 'g event =
    MouseDown
  | MouseUp
  | MouseLeave
  | PolygonHover "'g country option"
  | PolygonClick "'g country option"

text \<open>
  The functional update of lines 58 to 62 and 70 to 74: a copy of the previous set
  with the identifier added.
\<close>

definition addScratched :: "string \<Rightarrow> scratch_state \<Rightarrow> scratch_state" where
  "addScratched countryId s = s\<lparr>scratchedCountries := insert countryId (scratchedCountries s)\<rparr>"

text \<open>
  \<open>handlePolygonHover\<close> (lines 55 to 64) and \<open>handlePolygonClick\<close> (lines 67 to 76).
  When \<open>getCountryId\<close> raises, the handler ends before the state setter is called.
\<close>

definition handlePolygonHover :: "'g country option \<Rightarrow> scratch_state \<Rightarrow> scratch_state" where
  "handlePolygonHover polygon s =
     (case polygon of
        None \<Rightarrow> s
      | Some c \<Rightarrow>
          if isDragging s
          then (case getCountryId c of Inl e \<Rightarrow> s | Inr countryId \<Rightarrow> addScratched countryId s)
          else s)"

definition handlePolygonClick :: "'g country option \<Rightarrow> scratch_state \<Rightarrow> scratch_state" where
  "handlePolygonClick polygon s =
     (case polygon of
        None \<Rightarrow> s
      | Some c \<Rightarrow> (case getCountryId c of Inl e \<Rightarrow> s | Inr countryId \<Rightarrow> addScratched countryId s))"

definition handleMouseDown :: "scratch_state \<Rightarrow> scratch_state" where
  "handleMouseDown s = s\<lparr>isDragging := True\<rparr>"

definition handleMouseUp :: "scratch_state \<Rightarrow> scratch_state" where
  "handleMouseUp s = s\<lparr>isDragging := False\<rparr>"

fun handle :: "scratch_state \<Rightarrow> 'g event \<Rightarrow> scratch_state" where
  "handle s MouseDown = handleMouseDown s"
| "handle s MouseUp = handleMouseUp s"
| "handle s MouseLeave = handleMouseUp s"
| "handle s (PolygonHover polygon) = handlePolygonHover polygon s"
| "handle s (PolygonClick polygon) = handlePolygonClick polygon s"

text \<open>The state after a sequence of events, each handled to completion in turn.\<close>

definition run :: "scratch_state \<Rightarrow> 'g event list \<Rightarrow> scratch_state" where
  "run s evs = foldl handle s evs"

section \<open>The geocode cache of \<open>geocoder.js\<close>\<close>

definition GEOCODE_CACHE_KEY :: string where
  "GEOCODE_CACHE_KEY = ''scratch-map-geocode-cache''"

text \<open>
  What \<open>getGeocodeCache\<close> reads from its surroundings: the \<open>places\<close> object of the
  bundled \<open>geocoded.json\<close> (\<open>None\<close> when the file has none), the durable store
  (\<open>getItem\<close> gives \<open>null\<close>, here \<open>None\<close>, for a key that was never stored, and may
  raise), the JSON parser (raising on a string that is not JSON) and the string
  method \<open>toLowerCase\<close> of the runtime. A cache entry is an object
  \<open>{lat, lng, formattedAddress}\<close>, of any type \<open>'v\<close> here: an object is always truthy.
\<close>

record 'v geocoder_env =
  geocodedDataFile_places :: "(string \<rightharpoonup> 'v) option"
  localStorage_getItem :: "string \<Rightarrow> error + string option"
  JSON_parse :: "string \<Rightarrow> error + (string \<rightharpoonup> 'v)"
  toLowerCase :: "string \<Rightarrow> string"

text \<open>
  \<open>getGeocodeCache\<close> (lines 17 to 33). The object spread \<open>{...fileData, ...parsed}\<close>
  copies \<open>fileData\<close> and then writes every entry of \<open>parsed\<close> over it. An empty stored
  string is falsy, and every exception of the \<open>try\<close> block ends in \<open>return fileData\<close>.
\<close>

definition getGeocodeCache :: "'v geocoder_env \<Rightarrow> (string \<rightharpoonup> 'v)" where
  "getGeocodeCache env =
     (let fileData = (case geocodedDataFile_places env of None \<Rightarrow> Map.empty | Some m \<Rightarrow> m)
      in case localStorage_getItem env GEOCODE_CACHE_KEY of
           Inl e \<Rightarrow> fileData
         | Inr None \<Rightarrow> fileData
         | Inr (Some localData) \<Rightarrow>
             if localData = [] then fileData
             else (case JSON_parse env localData of
                     Inl e \<Rightarrow> fileData
                   | Inr parsed \<Rightarrow> fileData ++ parsed))"

text \<open>
  \<open>getCachedResult\<close> (lines 55 to 58); \<open>null\<close> is \<open>None\<close>. The cache is read as a map of
  its own entries: the names every JavaScript object inherits (\<open>constructor\<close>,
  \<open>__proto__\<close>) are not entries of it.
\<close>

definition getCachedResult :: "'v geocoder_env \<Rightarrow> string \<Rightarrow> 'v option" where
  "getCachedResult env query = getGeocodeCache env (toLowerCase env query)"

section \<open>The geometry library\<close>

text \<open>
  A position is \<open>[lng, lat]\<close> in degrees and a bounding box is
  \<open>[minX, minY, maxX, maxY]\<close>. Coordinates and distances are real numbers here.
\<close>

type_synonym point = "real \<times> real"
type_synonym bbox = "real \<times> real \<times> real \<times> real"

text \<open>
  The primitives of \<open>@turf/turf\<close> that the code calls. The library is not part of the
  repository, so each primitive is a parameter; any of them may raise. \<open>'g\<close> is the
  type of what the primitives take and return: GeoJSON features, and \<open>null\<close> where a
  primitive returns it. \<open>turf_circle center radiusKm steps\<close> is
  \<open>turf.circle(center, radiusKm, {steps, units: 'kilometers'})\<close>, \<open>turf_union a b\<close> is
  \<open>turf.union(turf.featureCollection([a, b]))\<close> and \<open>turf_distance\<close> is in kilometres.
\<close>

record 'g turf =
  turf_bbox :: "'g \<Rightarrow> error + bbox"
  turf_centroid :: "'g \<Rightarrow> error + point"
  turf_booleanPointInPolygon :: "point \<Rightarrow> 'g \<Rightarrow> error + bool"
  turf_booleanIntersects :: "'g \<Rightarrow> 'g \<Rightarrow> error + bool"
  turf_distance :: "point \<Rightarrow> point \<Rightarrow> error + real"
  turf_circle :: "point \<Rightarrow> real \<Rightarrow> nat \<Rightarrow> error + 'g"
  turf_union :: "'g \<Rightarrow> 'g \<Rightarrow> error + 'g"
  turf_area :: "'g \<Rightarrow> error + real"

section \<open>Places and coverage disks\<close>

text \<open>
  The globe component with the coverage disks is \<open>src/unnamed/part_000\<close>; the line
  numbers below are its lines. \<open>src/unnamed/part_001\<close> holds the same
  \<open>scratchedCircles\<close> and \<open>isCountryScratched\<close>, one line earlier. \<open>RADIUS_KM\<close> is
  \<open>getDefaultRadius()\<close>, the constant of \<open>radiusCalculator.js\<close>.
\<close>

definition RADIUS_KM :: real where
  "RADIUS_KM = 100"

text \<open>
  A geocoded place (lines 20 to 30 of the globe component). \<open>lat\<close> and \<open>lng\<close> are
  \<open>None\<close> when the entry of \<open>geocoded.json\<close> has no such number; a number is truthy
  when it is not zero.
\<close>

record place =
  title :: string
  lat :: "real option"
  lng :: "real option"
  formattedAddress :: jsstring
  geocoded :: bool

definition truthy_num :: "real option \<Rightarrow> bool" where
  "truthy_num v = (case v of None \<Rightarrow> False | Some x \<Rightarrow> x \<noteq> 0)"

text \<open>
  A coverage disk: the polygon \<open>turf.circle\<close> returned, with the \<open>lat\<close> and \<open>lng\<close> that
  lines 46 to 51 store in its \<open>properties\<close>.
\<close>

record 'g disk =
  polygon :: 'g
  properties_lat :: real
  properties_lng :: real

text \<open>\<open>createCircle\<close> (\<open>radiusCalculator.js\<close>, lines 19 to 23).\<close>

definition createCircle :: "'g turf \<Rightarrow> real \<Rightarrow> real \<Rightarrow> real \<Rightarrow> nat \<Rightarrow> error + 'g" where
  "createCircle g latv lngv radiusKm steps = turf_circle g (lngv, latv) radiusKm steps"

text \<open>
  \<open>scratchedCircles\<close> (lines 41 to 54): one disk of radius \<open>RADIUS_KM\<close> and 64 steps for
  every place that passes the filter, in the order of the places.
\<close>

fun scratchedCircles :: "'g turf \<Rightarrow> place list \<Rightarrow> error + 'g disk list" where
  "scratchedCircles g [] = Inr []"
| "scratchedCircles g (p # ps) =
     (case (lat p, lng p) of
        (Some latv, Some lngv) \<Rightarrow>
          if geocoded p \<and> latv \<noteq> 0 \<and> lngv \<noteq> 0
          then (case createCircle g latv lngv RADIUS_KM 64 of
                  Inl e \<Rightarrow> Inl e
                | Inr circle \<Rightarrow>
                    (case scratchedCircles g ps of
                       Inl e \<Rightarrow> Inl e
                     | Inr cs \<Rightarrow> Inr (\<lparr>polygon = circle, properties_lat = latv, properties_lng = lngv\<rparr> # cs)))
          else scratchedCircles g ps
      | _ \<Rightarrow> scratchedCircles g ps)"

section \<open>The disk-coverage matcher \<open>isCountryScratched\<close>\<close>

text \<open>
  \<open>circleBounds\<close> (lines 73 to 76): every disk with its bounding box, computed once
  when the matcher is built. This runs outside the matcher's \<open>try\<close> block.
\<close>

fun circleBounds :: "'g turf \<Rightarrow> 'g disk list \<Rightarrow> error + ('g disk \<times> bbox) list" where
  "circleBounds g [] = Inr []"
| "circleBounds g (circle # cs) =
     (case turf_bbox g (polygon circle) of
        Inl e \<Rightarrow> Inl e
      | Inr b \<Rightarrow> (case circleBounds g cs of Inl e \<Rightarrow> Inl e | Inr bs \<Rightarrow> Inr ((circle, b) # bs)))"

text \<open>The quick bounding box check of lines 85 to 90: true when the disk is skipped.\<close>

fun no_overlap :: "bbox \<Rightarrow> bbox \<Rightarrow> bool" where
  "no_overlap (c0, c1, c2, c3) (b0, b1, b2, b3) = (c2 < b0 \<or> c0 > b2 \<or> c3 < b1 \<or> c1 > b3)"

text \<open>
  The \<open>for\<close> loop of lines 83 to 118 and the \<open>return false\<close> of line 119. \<open>Inr True\<close> is
  a \<open>return true\<close> inside the loop and \<open>Inl\<close> an exception that leaves the loop. Only the
  call of \<open>turf.booleanIntersects\<close> has a \<open>try\<close> of its own (lines 107 to 117); an
  exception of \<open>turf.distance\<close> inside its \<open>catch\<close> block leaves the loop as well.
\<close>

fun scan :: "'g turf \<Rightarrow> 'g \<Rightarrow> bbox \<Rightarrow> ('g disk \<times> bbox) list \<Rightarrow> error + bool" where
  "scan g feature cbox [] = Inr False"
| "scan g feature cbox ((circle, dbox) # rest) =
     (if no_overlap cbox dbox then scan g feature cbox rest
      else
        (case turf_centroid g feature of
           Inl e \<Rightarrow> Inl e
         | Inr centroid \<Rightarrow>
            (case turf_booleanPointInPolygon g centroid (polygon circle) of
               Inl e \<Rightarrow> Inl e
             | Inr inCircle \<Rightarrow>
                if inCircle then Inr True
                else
                  (let circleCenter = (properties_lng circle, properties_lat circle)
                   in case turf_booleanPointInPolygon g circleCenter feature of
                        Inl e \<Rightarrow> Inl e
                      | Inr inCountry \<Rightarrow>
                          if inCountry then Inr True
                          else
                            (case turf_booleanIntersects g feature (polygon circle) of
                               Inr intersects \<Rightarrow>
                                 if intersects then Inr True else scan g feature cbox rest
                             | Inl e \<Rightarrow>
                                 (case turf_distance g centroid circleCenter of
                                    Inl e' \<Rightarrow> Inl e'
                                  | Inr distance \<Rightarrow>
                                      if distance \<le> RADIUS_KM * 1.5 then Inr True
                                      else scan g feature cbox rest))))))"

text \<open>The \<open>try\<close> block of the matcher (lines 79 to 119).\<close>

definition matcher_try :: "'g turf \<Rightarrow> ('g disk \<times> bbox) list \<Rightarrow> 'g country \<Rightarrow> error + bool" where
  "matcher_try g bounds c =
     (case turf_bbox g (geometry c) of
        Inl e \<Rightarrow> Inl e
      | Inr countryBbox \<Rightarrow> scan g (geometry c) countryBbox bounds)"

text \<open>
  The matcher with its \<open>catch\<close> (lines 78 to 124): an exception of the \<open>try\<close> block is
  logged and \<open>false\<close> returned. The result is a sum so that "raises" can be said of it.
\<close>

definition matcher :: "'g turf \<Rightarrow> ('g disk \<times> bbox) list \<Rightarrow> 'g country \<Rightarrow> error + bool" where
  "matcher g bounds c = (case matcher_try g bounds c of Inl err \<Rightarrow> Inr False | Inr b \<Rightarrow> Inr b)"

text \<open>
  \<open>isCountryScratched\<close> (lines 69 to 125): the function the memo holds. Building it
  raises when a bounding box of a disk cannot be computed.
\<close>

definition isCountryScratched :: "'g turf \<Rightarrow> 'g disk list \<Rightarrow> error + ('g country \<Rightarrow> error + bool)" where
  "isCountryScratched g circles =
     (if circles = [] then Inr (\<lambda>c. Inr False)
      else (case circleBounds g circles of Inl e \<Rightarrow> Inl e | Inr bounds \<Rightarrow> Inr (matcher g bounds)))"

section \<open>The visited countries\<close>

text \<open>
  An item of \<open>countriesWithBbox\<close> (lines 149 to 166), and the name the item gets
  (lines 156 to 161, with optional chaining: a missing \<open>properties\<close> object gives \<open>''\<close>).
\<close>

record 'g country_item =
  countryFeature :: 'g
  itemBbox :: bbox
  countryName :: string

definition countryNameOf :: "'g country \<Rightarrow> string" where
  "countryNameOf c =
     (case properties c of
        None \<Rightarrow> ''''
      | Some p \<Rightarrow>
          js_or_lit (js_or (js_or (js_or (js_or (NAME p) (NAME_EN p)) (NAME_LONG p)) (ADMIN p)) (name p)) '''')"

text \<open>
  A country whose bounding box cannot be computed becomes \<open>null\<close> and is filtered out,
  as is one whose name is empty.
\<close>

fun countriesWithBbox :: "'g turf \<Rightarrow> 'g country list \<Rightarrow> 'g country_item list" where
  "countriesWithBbox g [] = []"
| "countriesWithBbox g (c # cs) =
     (case turf_bbox g (geometry c) of
        Inl err \<Rightarrow> countriesWithBbox g cs
      | Inr b \<Rightarrow>
          if countryNameOf c \<noteq> []
          then \<lparr>countryFeature = geometry c, itemBbox = b, countryName = countryNameOf c\<rparr>
                 # countriesWithBbox g cs
          else countriesWithBbox g cs)"

text \<open>The bounding box check of line 179: true when the point is outside the box.\<close>

fun outside_bbox :: "point \<Rightarrow> bbox \<Rightarrow> bool" where
  "outside_bbox (x, y) (b0, b1, b2, b3) = (x < b0 \<or> x > b2 \<or> y < b1 \<or> y > b3)"

text \<open>
  The inner loop (lines 176 to 192) for one place: the name of the first item that
  contains the point, \<open>None\<close> when the loop ends without a \<open>break\<close>. An exception of
  the point-in-polygon test skips the item.
\<close>

fun findCountry :: "'g turf \<Rightarrow> point \<Rightarrow> 'g country_item list \<Rightarrow> string option" where
  "findCountry g placePoint [] = None"
| "findCountry g placePoint (item # items) =
     (if outside_bbox placePoint (itemBbox item) then findCountry g placePoint items
      else
        (case turf_booleanPointInPolygon g placePoint (countryFeature item) of
           Inl err \<Rightarrow> findCountry g placePoint items
         | Inr inside \<Rightarrow>
             if inside then Some (countryName item) else findCountry g placePoint items))"

text \<open>
  A JavaScript \<open>Set\<close> of strings is the list of its elements in insertion order;
  \<open>add\<close> leaves the set as it is when the element is already there.
\<close>

definition set_add :: "string \<Rightarrow> string list \<Rightarrow> string list" where
  "set_add x s = (if x \<in> set s then s else s @ [x])"

text \<open>The outer loop (lines 169 to 193) over the places, with the set built so far.\<close>

fun visitPlaces :: "'g turf \<Rightarrow> 'g country_item list \<Rightarrow> string list \<Rightarrow> place list \<Rightarrow> string list" where
  "visitPlaces g items visitedCountryNames [] = visitedCountryNames"
| "visitPlaces g items visitedCountryNames (p # ps) =
     (if \<not> geocoded p \<or> \<not> truthy_num (lat p) \<or> \<not> truthy_num (lng p)
      then visitPlaces g items visitedCountryNames ps
      else
        (case (lng p, lat p) of
           (Some lngv, Some latv) \<Rightarrow>
             (case findCountry g (lngv, latv) items of
                None \<Rightarrow> visitPlaces g items visitedCountryNames ps
              | Some n \<Rightarrow> visitPlaces g items (set_add n visitedCountryNames) ps)
         | _ \<Rightarrow> visitPlaces g items visitedCountryNames ps))"

record visited =
  count :: nat
  list :: "string list"

text \<open>
  \<open>visitedCountriesData\<close> (lines 141 to 202). \<open>Array.prototype.sort\<close> without a
  comparator orders strings by their code units, which is the lexicographic order
  of \<open>string\<close> here.
\<close>

definition visitedCountriesData :: "'g turf \<Rightarrow> 'g country list \<Rightarrow> place list \<Rightarrow> visited" where
  "visitedCountriesData g features geocodedPlaces =
     (if features = [] \<or> geocodedPlaces = [] then \<lparr>count = 0, list = []\<rparr>
      else
        (let visitedCountryNames = visitPlaces g (countriesWithBbox g features) [] geocodedPlaces;
             countryList = sort visitedCountryNames
         in \<lparr>count = length countryList, list = countryList\<rparr>))"

section \<open>Area aggregation of \<open>radiusCalculator.js\<close>\<close>

text \<open>
  The loop of \<open>mergeCircles\<close> (lines 62 to 69): when the union raises, \<open>merged\<close> keeps
  its value and the loop goes on with the next feature.
\<close>

fun mergeLoop :: "'g turf \<Rightarrow> 'g \<Rightarrow> 'g list \<Rightarrow> 'g" where
  "mergeLoop g merged [] = merged"
| "mergeLoop g merged (f # fs) =
     (case turf_union g merged f of
        Inl e \<Rightarrow> mergeLoop g merged fs
      | Inr u \<Rightarrow> mergeLoop g u fs)"

text \<open>
  \<open>mergeCircles\<close> (lines 50 to 75) on the \<open>features\<close> of the collection; the result is
  the list of features of the collection returned. Nothing in the outer \<open>try\<close> block
  raises outside the inner one, so the outer \<open>catch\<close> is never entered.
\<close>

fun mergeCircles :: "'g turf \<Rightarrow> 'g list \<Rightarrow> 'g list" where
  "mergeCircles g [] = []"
| "mergeCircles g [f] = [f]"
| "mergeCircles g (f # fs) = [mergeLoop g f fs]"

text \<open>The summation loop of lines 199 to 203, from square metres to square kilometres.\<close>

fun sumAreas :: "'g turf \<Rightarrow> real \<Rightarrow> 'g list \<Rightarrow> error + real" where
  "sumAreas g totalArea [] = Inr totalArea"
| "sumAreas g totalArea (f # fs) =
     (case turf_area g f of
        Inl e \<Rightarrow> Inl e
      | Inr a \<Rightarrow> sumAreas g (totalArea + a / 1000000) fs)"

text \<open>\<open>calculateTotalArea\<close> (lines 191 to 211), with the fallback of its \<open>catch\<close>.\<close>

definition calculateTotalArea :: "'g turf \<Rightarrow> 'g list \<Rightarrow> real" where
  "calculateTotalArea g features =
     (if features = [] then 0
      else
        (case sumAreas g 0 (mergeCircles g features) of
           Inr totalArea \<Rightarrow> totalArea
         | Inl error \<Rightarrow> real (length features) * pi * RADIUS_KM * RADIUS_KM))"

section \<open>Notions the properties are stated with\<close>

text \<open>
  The spec's wording of the fallback chain: a prioritised list of field values tried
  in order, the first non-empty one returned, and the sentinel when there is none.
\<close>

fun first_non_empty :: "jsstring list \<Rightarrow> string \<Rightarrow> string" where
  "first_non_empty [] sentinel = sentinel"
| "first_non_empty (None # vs) sentinel = first_non_empty vs sentinel"
| "first_non_empty (Some s # vs) sentinel = (if s \<noteq> [] then s else first_non_empty vs sentinel)"

text \<open>
  An item contains a point when the point passes the bounding box check and the
  point-in-polygon test answers \<open>true\<close>.
\<close>

definition containsPoint :: "'g turf \<Rightarrow> point \<Rightarrow> 'g country_item \<Rightarrow> bool" where
  "containsPoint g pt item =
     (\<not> outside_bbox pt (itemBbox item)
      \<and> turf_booleanPointInPolygon g pt (countryFeature item) = Inr True)"

text \<open>The places the outer loop does not skip, with their points \<open>[lng, lat]\<close>.\<close>

definition placePoint :: "place \<Rightarrow> point option" where
  "placePoint p =
     (case (lng p, lat p) of
        (Some x, Some y) \<Rightarrow> if geocoded p \<and> x \<noteq> 0 \<and> y \<noteq> 0 then Some (x, y) else None
      | _ \<Rightarrow> None)"

text \<open>
  The spec's wording of the matcher (section 4.1, steps 1 to 5), over the answers of
  the geometry for one country: its bounding box, and for every disk the disk's
  bounding box, whether the country's centroid lies inside the disk, whether the
  disk's centre lies inside the country, the answer of the intersection test (\<open>Inl\<close>
  when the primitive fails) and the distance from the centroid to the disk's centre.
  Every disk is built with the radius \<open>RADIUS_KM\<close>.
\<close>

fun boxes_overlap :: "bbox \<Rightarrow> bbox \<Rightarrow> bool" where
  "boxes_overlap (a0, a1, a2, a3) (b0, b1, b2, b3) =
     ((a0 \<le> b2 \<and> b0 \<le> a2) \<and> (a1 \<le> b3 \<and> b1 \<le> a3))"

fun isCountryCovered ::
  "bbox \<Rightarrow> ('d \<Rightarrow> bbox) \<Rightarrow> ('d \<Rightarrow> bool) \<Rightarrow> ('d \<Rightarrow> bool) \<Rightarrow> ('d \<Rightarrow> error + bool) \<Rightarrow> ('d \<Rightarrow> real)
     \<Rightarrow> 'd list \<Rightarrow> bool" where
  "isCountryCovered countryBox diskBox centroidInDisk centreInCountry intersection distanceTo [] = False"
| "isCountryCovered countryBox diskBox centroidInDisk centreInCountry intersection distanceTo (d # ds) =
     (if \<not> boxes_overlap countryBox (diskBox d)
      then isCountryCovered countryBox diskBox centroidInDisk centreInCountry intersection distanceTo ds
      else if centroidInDisk d then True
      else if centreInCountry d then True
      else if (case intersection d of Inr b \<Rightarrow> b | Inl e \<Rightarrow> distanceTo d \<le> 1.5 * RADIUS_KM) then True
      else isCountryCovered countryBox diskBox centroidInDisk centreInCountry intersection distanceTo ds)"

section \<open>Example inputs\<close>

text \<open>
  The ASCII part of \<open>String.prototype.toLowerCase\<close>, for the examples: the letters
  \<open>A\<close> to \<open>Z\<close> are mapped to \<open>a\<close> to \<open>z\<close>, every other character is left as it is.
\<close>

definition ascii_lower :: "char \<Rightarrow> char" where
  "ascii_lower c = (if CHR ''A'' \<le> c \<and> c \<le> CHR ''Z'' then char_of (of_char c + (32::nat)) else c)"

text \<open>
  A geocode cache: the bundled file knows Paris and Rome, the durable store holds an
  updated entry for Paris. An entry is \<open>(lat, lng, formattedAddress)\<close>.
\<close>

definition example_env :: "(real \<times> real \<times> string) geocoder_env" where
  "example_env =
     \<lparr>geocodedDataFile_places =
        Some [''paris'' \<mapsto> (48, 2, ''Paris''), ''rome'' \<mapsto> (41, 12, ''Rome'')],
      localStorage_getItem =
        (\<lambda>k. if k = ''scratch-map-geocode-cache'' then Inr (Some ''{paris}'') else Inr None),
      JSON_parse =
        (\<lambda>s. if s = ''{paris}'' then Inr [''paris'' \<mapsto> (49, 3, ''Paris, France'')] else Inl SyntaxError),
      toLowerCase = map ascii_lower\<rparr>"

text \<open>
  A small geometry provider for the examples. A shape is a list of unit cells on a
  strip: cell \<open>i\<close> is the square from \<open>(i, 0)\<close> to \<open>(i + 1, 1)\<close>. A shape without cells
  has no bounding box and no centroid; a shape that lists a cell twice overlaps
  itself, and the intersection test and the union raise on it.
\<close>

definition strip_bbox :: "nat list \<Rightarrow> error + bbox" where
  "strip_bbox cells =
     (if cells = [] then Inl GeometryError
      else Inr (real (Min (set cells)), 0, real (Max (set cells)) + 1, 1))"

definition strip_centroid :: "nat list \<Rightarrow> error + point" where
  "strip_centroid cells =
     (if cells = [] then Inl GeometryError
      else Inr (sum_list (map (\<lambda>i. real i + 1 / 2) cells) / real (length cells), 1 / 2))"

fun strip_pointInPolygon :: "point \<Rightarrow> nat list \<Rightarrow> error + bool" where
  "strip_pointInPolygon (x, y) cells =
     Inr (list_ex (\<lambda>i. real i \<le> x \<and> x \<le> real i + 1) cells \<and> 0 \<le> y \<and> y \<le> 1)"

definition strip_intersects :: "nat list \<Rightarrow> nat list \<Rightarrow> error + bool" where
  "strip_intersects a b =
     (if distinct a \<and> distinct b
      then Inr (list_ex (\<lambda>i. list_ex (\<lambda>j. i \<le> j + 1 \<and> j \<le> i + 1) b) a)
      else Inl GeometryError)"

fun strip_distance :: "point \<Rightarrow> point \<Rightarrow> error + real" where
  "strip_distance (x1, y1) (x2, y2) = Inr (\<bar>x1 - x2\<bar> + \<bar>y1 - y2\<bar>)"

fun strip_circle :: "point \<Rightarrow> real \<Rightarrow> nat \<Rightarrow> error + nat list" where
  "strip_circle (x, y) r steps = Inr (map nat [\<lfloor>x - r\<rfloor> .. \<lfloor>x + r\<rfloor>])"

definition strip_union :: "nat list \<Rightarrow> nat list \<Rightarrow> error + nat list" where
  "strip_union a b =
     (if distinct a \<and> distinct b then Inr (remdups (a @ b)) else Inl GeometryError)"

definition strip_area :: "nat list \<Rightarrow> error + real" where
  "strip_area cells = Inr (1000000 * real (card (set cells)))"

definition strip :: "nat list turf" where
  "strip =
     \<lparr>turf_bbox = strip_bbox,
      turf_centroid = strip_centroid,
      turf_booleanPointInPolygon = strip_pointInPolygon,
      turf_booleanIntersects = strip_intersects,
      turf_distance = strip_distance,
      turf_circle = strip_circle,
      turf_union = strip_union,
      turf_area = strip_area\<rparr>"

definition place_at :: "string \<Rightarrow> real \<Rightarrow> real \<Rightarrow> place" where
  "place_at t x y =
     \<lparr>title = t, lat = Some y, lng = Some x, formattedAddress = None, geocoded = True\<rparr>"

definition country_named :: "string \<Rightarrow> nat list \<Rightarrow> nat list country" where
  "country_named n cells =
     \<lparr>geometry = cells,
      properties = Some \<lparr>name = Some n, NAME = None, ADMIN = None, NAME_EN = None, NAME_LONG = None\<rparr>\<rparr>"

text \<open>
  Two disks: one far from the cells 3 and 4, and one next to them whose polygon lists
  its cell twice.
\<close>

definition far_disk :: "nat list disk" where
  "far_disk = \<lparr>polygon = [10, 11], properties_lat = 1 / 2, properties_lng = 11\<rparr>"

definition folded_disk :: "nat list disk" where
  "folded_disk = \<lparr>polygon = [5, 5], properties_lat = 1 / 2, properties_lng = 11 / 2\<rparr>"


section \<open>Properties of the scratch map\<close>

text \<open>
  C8. On a country whose \<open>properties\<close> object is present, \<open>getCountryId\<close> returns the
  first non-empty value among \<open>name\<close>, \<open>NAME\<close>, \<open>ADMIN\<close> and \<open>NAME_EN\<close>, in that order,
  and \<open>'unknown'\<close> only when all four are absent or empty. In particular, when the
  first three are absent and \<open>NAME_EN\<close> holds a non-empty string, that string is
  returned.
\<close>

theorem getCountryId_fallback_chain:
  assumes "properties c = Some p"
  shows "getCountryId c = Inr (first_non_empty [name p, NAME p, ADMIN p, NAME_EN p] ''unknown'')
    \<and> (name p = None \<and> NAME p = None \<and> ADMIN p = None \<and> NAME_EN p = Some v \<and> v \<noteq> []
         \<longrightarrow> getCountryId c = Inr v)"
  using assms
  by (auto simp: getCountryId_def js_or_def js_or_lit_def truthy_def split: option.splits)

theorem getCountryId_fallback_chain_witness:
  "getCountryId \<lparr>geometry = (), properties = Some \<lparr>name = None, NAME = None, ADMIN = None,
      NAME_EN = Some ''Aland'', NAME_LONG = None\<rparr>\<rparr> = Inr ''Aland''"
  using getCountryId_fallback_chain
    [of "\<lparr>geometry = (), properties = Some \<lparr>name = None, NAME = None, ADMIN = None,
      NAME_EN = Some ''Aland'', NAME_LONG = None\<rparr>\<rparr>"
      "\<lparr>name = None, NAME = None, ADMIN = None, NAME_EN = Some ''Aland'', NAME_LONG = None\<rparr>"
      "''Aland''"]
  by simp

lemma handle_mono: "scratchedCountries s \<subseteq> scratchedCountries (handle s ev)"
  by (cases ev)
    (auto simp: handleMouseDown_def handleMouseUp_def handlePolygonHover_def
      handlePolygonClick_def addScratched_def split: option.splits sum.splits)

lemma foldl_handle_mono: "scratchedCountries s \<subseteq> scratchedCountries (foldl handle s evs)"
proof (induction evs arbitrary: s)
  case Nil
  show ?case by simp
next
  case (Cons ev evs)
  have "scratchedCountries s \<subseteq> scratchedCountries (handle s ev)"
    by (rule handle_mono)
  also have "\<dots> \<subseteq> scratchedCountries (foldl handle (handle s ev) evs)"
    by (rule Cons.IH)
  finally show ?case by simp
qed

text \<open>
  C10. The scratch set only grows under user interaction: after any sequence of
  pointer events every identifier scratched before is still scratched, and a click
  or a hover either leaves the set as it is or adds the identifier that
  \<open>getCountryId\<close> derives from the polygon under the pointer.
\<close>

theorem scratch_set_monotone:
  "scratchedCountries s \<subseteq> scratchedCountries (run s evs)
   \<and> (scratchedCountries (handlePolygonClick target s) = scratchedCountries s
        \<or> (\<exists>c countryId. target = Some c \<and> getCountryId c = Inr countryId
              \<and> scratchedCountries (handlePolygonClick target s)
                  = insert countryId (scratchedCountries s)))
   \<and> (scratchedCountries (handlePolygonHover target s) = scratchedCountries s
        \<or> (\<exists>c countryId. target = Some c \<and> getCountryId c = Inr countryId \<and> isDragging s
              \<and> scratchedCountries (handlePolygonHover target s)
                  = insert countryId (scratchedCountries s)))"
proof (intro conjI)
  show "scratchedCountries s \<subseteq> scratchedCountries (run s evs)"
    unfolding run_def by (rule foldl_handle_mono)
next
  show "scratchedCountries (handlePolygonClick target s) = scratchedCountries s
        \<or> (\<exists>c countryId. target = Some c \<and> getCountryId c = Inr countryId
              \<and> scratchedCountries (handlePolygonClick target s)
                  = insert countryId (scratchedCountries s))"
    by (auto simp: handlePolygonClick_def addScratched_def split: option.splits sum.splits)
next
  show "scratchedCountries (handlePolygonHover target s) = scratchedCountries s
        \<or> (\<exists>c countryId. target = Some c \<and> getCountryId c = Inr countryId \<and> isDragging s
              \<and> scratchedCountries (handlePolygonHover target s)
                  = insert countryId (scratchedCountries s))"
    by (auto simp: handlePolygonHover_def addScratched_def split: option.splits sum.splits)
qed
section \<open>Properties of the geocode cache\<close>

lemma getGeocodeCache_merged:
  assumes "geocodedDataFile_places env = Some bundled"
    and "localStorage_getItem env GEOCODE_CACHE_KEY = Inr (Some localData)"
    and "localData \<noteq> []"
    and "JSON_parse env localData = Inr overlay"
  shows "getGeocodeCache env = bundled ++ overlay"
  using assms by (simp add: getGeocodeCache_def)

lemma getGeocodeCache_nothing_stored:
  assumes "localStorage_getItem env GEOCODE_CACHE_KEY = Inr None"
  shows "getGeocodeCache env = (case geocodedDataFile_places env of None \<Rightarrow> Map.empty | Some m \<Rightarrow> m)"
  using assms by (simp add: getGeocodeCache_def)

lemma getGeocodeCache_unreadable:
  assumes "localStorage_getItem env GEOCODE_CACHE_KEY = Inl e
     \<or> (\<exists>localData e. localStorage_getItem env GEOCODE_CACHE_KEY = Inr (Some localData)
           \<and> JSON_parse env localData = Inl e)"
  shows "getGeocodeCache env = (case geocodedDataFile_places env of None \<Rightarrow> Map.empty | Some m \<Rightarrow> m)"
  using assms by (auto simp: getGeocodeCache_def Let_def)

text \<open>
  C9. When the bundled dataset is \<open>bundled\<close> and the durable store holds a string that
  parses to \<open>overlay\<close>, the effective cache is \<open>bundled\<close> overwritten by \<open>overlay\<close>, and
  a lookup goes through the lower-cased query: a key of both sources gives the
  overlay's entry, a key of the bundled dataset alone gives the bundled entry.
\<close>

theorem getCachedResult_overlay_precedence:
  assumes "geocodedDataFile_places env = Some bundled"
    and "localStorage_getItem env GEOCODE_CACHE_KEY = Inr (Some localData)"
    and "localData \<noteq> []"
    and "JSON_parse env localData = Inr overlay"
  shows "getGeocodeCache env = bundled ++ overlay
    \<and> (toLowerCase env query \<in> dom bundled \<inter> dom overlay
         \<longrightarrow> getCachedResult env query = overlay (toLowerCase env query))
    \<and> (toLowerCase env query \<in> dom bundled - dom overlay
         \<longrightarrow> getCachedResult env query = bundled (toLowerCase env query))"
proof -
  have merged: "getGeocodeCache env = bundled ++ overlay"
    using assms by (rule getGeocodeCache_merged)
  have both: "getCachedResult env query = overlay (toLowerCase env query)"
    if "toLowerCase env query \<in> dom bundled \<inter> dom overlay"
    using that by (auto simp: getCachedResult_def merged map_add_def split: option.splits)
  have only_bundled: "getCachedResult env query = bundled (toLowerCase env query)"
    if "toLowerCase env query \<in> dom bundled - dom overlay"
    using that by (auto simp: getCachedResult_def merged map_add_def split: option.splits)
  from merged both only_bundled show ?thesis by blast
qed

theorem getCachedResult_overlay_precedence_witness:
  "getCachedResult example_env ''Paris'' = Some (49, 3, ''Paris, France'')
   \<and> getCachedResult example_env ''ROME'' = Some (41, 12, ''Rome'')"
proof -
  let ?bundled = "[''paris'' \<mapsto> (48::real, 2::real, ''Paris''), ''rome'' \<mapsto> (41, 12, ''Rome'')]"
  let ?overlay = "[''paris'' \<mapsto> (49::real, 3::real, ''Paris, France'')]"
  have a: "geocodedDataFile_places example_env = Some ?bundled"
    by (simp add: example_env_def)
  have b: "localStorage_getItem example_env GEOCODE_CACHE_KEY = Inr (Some ''{paris}'')"
    by (simp add: example_env_def GEOCODE_CACHE_KEY_def)
  have c: "''{paris}'' \<noteq> []"
    by simp
  have d: "JSON_parse example_env ''{paris}'' = Inr ?overlay"
    by (simp add: example_env_def)
  have p: "toLowerCase example_env ''Paris'' = ''paris''"
    unfolding example_env_def by code_simp
  have r: "toLowerCase example_env ''ROME'' = ''rome''"
    unfolding example_env_def by code_simp
  from getCachedResult_overlay_precedence [OF a b c d, of "''Paris''"]
    getCachedResult_overlay_precedence [OF a b c d, of "''ROME''"]
  show ?thesis
    by (simp add: p r)
qed

section \<open>Properties of the visited countries\<close>

lemma findCountry_step:
  "findCountry g pt (item # items) =
     (if containsPoint g pt item then Some (countryName item) else findCountry g pt items)"
  by (auto simp: containsPoint_def split: sum.splits)

lemma findCountry_None: "findCountry g pt items = None \<longleftrightarrow> (\<forall>i\<in>set items. \<not> containsPoint g pt i)"
  by (induction items) (simp_all add: findCountry_step del: findCountry.simps(2))

lemma findCountry_Some:
  "findCountry g pt items = Some n \<longleftrightarrow>
     (\<exists>pre item post. items = pre @ item # post \<and> countryName item = n
        \<and> containsPoint g pt item \<and> (\<forall>i\<in>set pre. \<not> containsPoint g pt i))"
proof (induction items)
  case Nil
  show ?case by simp
next
  case (Cons a items)
  show ?case
  proof (cases "containsPoint g pt a")
    case True
    have "(\<exists>pre item post. a # items = pre @ item # post \<and> countryName item = n
        \<and> containsPoint g pt item \<and> (\<forall>i\<in>set pre. \<not> containsPoint g pt i))
        \<longleftrightarrow> countryName a = n"
    proof
      assume "\<exists>pre item post. a # items = pre @ item # post \<and> countryName item = n
        \<and> containsPoint g pt item \<and> (\<forall>i\<in>set pre. \<not> containsPoint g pt i)"
      then obtain pre item post where d: "a # items = pre @ item # post"
        and n: "countryName item = n" and first: "\<forall>i\<in>set pre. \<not> containsPoint g pt i"
        by blast
      have "pre = []"
      proof (cases pre)
        case Nil
        then show ?thesis .
      next
        case (Cons b pre')
        with d have "b = a" by simp
        with Cons first True show ?thesis by simp
      qed
      with d n show "countryName a = n" by simp
    next
      assume "countryName a = n"
      with True have "a # items = [] @ a # items \<and> countryName a = n
        \<and> containsPoint g pt a \<and> (\<forall>i\<in>set []. \<not> containsPoint g pt i)"
        by simp
      then show "\<exists>pre item post. a # items = pre @ item # post \<and> countryName item = n
        \<and> containsPoint g pt item \<and> (\<forall>i\<in>set pre. \<not> containsPoint g pt i)"
        by blast
    qed
    with True show ?thesis
      by (simp add: findCountry_step del: findCountry.simps(2))
  next
    case False
    have "(\<exists>pre item post. a # items = pre @ item # post \<and> countryName item = n
        \<and> containsPoint g pt item \<and> (\<forall>i\<in>set pre. \<not> containsPoint g pt i))
      \<longleftrightarrow> (\<exists>pre item post. items = pre @ item # post \<and> countryName item = n
        \<and> containsPoint g pt item \<and> (\<forall>i\<in>set pre. \<not> containsPoint g pt i))"
    proof
      assume "\<exists>pre item post. a # items = pre @ item # post \<and> countryName item = n
        \<and> containsPoint g pt item \<and> (\<forall>i\<in>set pre. \<not> containsPoint g pt i)"
      then obtain pre item post where d: "a # items = pre @ item # post"
        and n: "countryName item = n" and c: "containsPoint g pt item"
        and first: "\<forall>i\<in>set pre. \<not> containsPoint g pt i"
        by blast
      from d c False obtain pre' where pre: "pre = a # pre'"
        by (cases pre) auto
      with d have "items = pre' @ item # post" by simp
      moreover from pre first have "\<forall>i\<in>set pre'. \<not> containsPoint g pt i" by simp
      ultimately show "\<exists>pre item post. items = pre @ item # post \<and> countryName item = n
        \<and> containsPoint g pt item \<and> (\<forall>i\<in>set pre. \<not> containsPoint g pt i)"
        using n c by blast
    next
      assume "\<exists>pre item post. items = pre @ item # post \<and> countryName item = n
        \<and> containsPoint g pt item \<and> (\<forall>i\<in>set pre. \<not> containsPoint g pt i)"
      then obtain pre item post where d: "items = pre @ item # post"
        and n: "countryName item = n" and c: "containsPoint g pt item"
        and first: "\<forall>i\<in>set pre. \<not> containsPoint g pt i"
        by blast
      from d have "a # items = (a # pre) @ item # post" by simp
      moreover from first False have "\<forall>i\<in>set (a # pre). \<not> containsPoint g pt i" by simp
      ultimately show "\<exists>pre item post. a # items = pre @ item # post \<and> countryName item = n
        \<and> containsPoint g pt item \<and> (\<forall>i\<in>set pre. \<not> containsPoint g pt i)"
        using n c by blast
    qed
    with False Cons.IH show ?thesis
      by (simp add: findCountry_step del: findCountry.simps(2))
  qed
qed

lemma visitPlaces_step:
  "visitPlaces g items acc (p # ps) =
     (case placePoint p of
        None \<Rightarrow> visitPlaces g items acc ps
      | Some pt \<Rightarrow>
          (case findCountry g pt items of
             None \<Rightarrow> visitPlaces g items acc ps
           | Some n \<Rightarrow> visitPlaces g items (set_add n acc) ps))"
  by (auto simp: placePoint_def truthy_num_def split: option.splits)

lemma set_set_add: "set (set_add x s) = insert x (set s)"
  by (auto simp: set_add_def)

lemma distinct_set_add: "distinct s \<Longrightarrow> distinct (set_add x s)"
  by (simp add: set_add_def)

lemma distinct_visitPlaces: "distinct acc \<Longrightarrow> distinct (visitPlaces g items acc ps)"
  by (induction ps arbitrary: acc)
    (auto simp: visitPlaces_step distinct_set_add simp del: visitPlaces.simps(2) split: option.splits)

lemma set_visitPlaces:
  "set (visitPlaces g items acc ps) =
     set acc \<union> {n. \<exists>p\<in>set ps. \<exists>pt. placePoint p = Some pt \<and> findCountry g pt items = Some n}"
proof (induction ps arbitrary: acc)
  case Nil
  show ?case by simp
next
  case (Cons p ps)
  show ?case
    by (cases "placePoint p"; cases "findCountry g (the (placePoint p)) items")
      (auto simp: visitPlaces_step Cons.IH set_set_add simp del: visitPlaces.simps(2))
qed

lemma countriesWithBbox_origin:
  "item \<in> set (countriesWithBbox g features) \<Longrightarrow>
     \<exists>c\<in>set features. countryFeature item = geometry c \<and> countryName item = countryNameOf c
        \<and> turf_bbox g (geometry c) = Inr (itemBbox item)"
  by (induction features) (auto split: sum.splits if_splits)

lemma visited_names_set:
  "set (list (visitedCountriesData g features places)) =
     {n. \<exists>p\<in>set places. \<exists>pt. placePoint p = Some pt
           \<and> findCountry g pt (countriesWithBbox g features) = Some n}"
proof (cases "features = [] \<or> places = []")
  case True
  then show ?thesis
    by (auto simp: visitedCountriesData_def)
next
  case False
  then show ?thesis
    by (simp add: visitedCountriesData_def Let_def set_visitPlaces)
qed

text \<open>
  Two places in the cells of Bern; the first one also lies in the cell of Aland, which
  comes later in the list of countries.
\<close>

lemma visited_example:
  "visitedCountriesData strip [country_named ''Bern'' [3, 4], country_named ''Aland'' [3]]
     [place_at ''harbour'' (7 / 2) (1 / 2), place_at ''pier'' (9 / 2) (1 / 2)]
   = \<lparr>count = 1, list = [''Bern'']\<rparr>"
  by (simp add: visitedCountriesData_def strip_def strip_bbox_def country_named_def place_at_def
      countryNameOf_def js_or_def js_or_lit_def truthy_def truthy_num_def set_add_def)

text \<open>
  C3. A name is in the list of visited countries exactly when, for some place that
  the loop does not skip, the first item of \<open>countriesWithBbox\<close> that contains the
  place's own point \<open>[lng, lat]\<close> (inside its bounding box and inside its polygon) has
  that name. Such an item comes from a country of the input whose polygon contains
  the point: no coverage disk is involved.
\<close>

theorem visited_names_point_in_polygon:
  "(n \<in> set (list (visitedCountriesData g features places)) \<longleftrightarrow>
      (\<exists>p\<in>set places. \<exists>pt pre item post. placePoint p = Some pt
          \<and> countriesWithBbox g features = pre @ item # post \<and> countryName item = n
          \<and> containsPoint g pt item \<and> (\<forall>i\<in>set pre. \<not> containsPoint g pt i)))
   \<and> (n \<in> set (list (visitedCountriesData g features places)) \<longrightarrow>
      (\<exists>c\<in>set features. \<exists>p\<in>set places. \<exists>pt b. placePoint p = Some pt
          \<and> countryNameOf c = n \<and> turf_bbox g (geometry c) = Inr b \<and> \<not> outside_bbox pt b
          \<and> turf_booleanPointInPolygon g pt (geometry c) = Inr True))"
proof
  show first: "n \<in> set (list (visitedCountriesData g features places)) \<longleftrightarrow>
      (\<exists>p\<in>set places. \<exists>pt pre item post. placePoint p = Some pt
          \<and> countriesWithBbox g features = pre @ item # post \<and> countryName item = n
          \<and> containsPoint g pt item \<and> (\<forall>i\<in>set pre. \<not> containsPoint g pt i))"
    unfolding visited_names_set findCountry_Some by blast
  show "n \<in> set (list (visitedCountriesData g features places)) \<longrightarrow>
      (\<exists>c\<in>set features. \<exists>p\<in>set places. \<exists>pt b. placePoint p = Some pt
          \<and> countryNameOf c = n \<and> turf_bbox g (geometry c) = Inr b \<and> \<not> outside_bbox pt b
          \<and> turf_booleanPointInPolygon g pt (geometry c) = Inr True)"
  proof
    assume "n \<in> set (list (visitedCountriesData g features places))"
    with first obtain p pt pre item post where p: "p \<in> set places"
      and pt: "placePoint p = Some pt"
      and d: "countriesWithBbox g features = pre @ item # post"
      and n: "countryName item = n" and c: "containsPoint g pt item"
      by blast
    from d have "item \<in> set (countriesWithBbox g features)" by simp
    then obtain c' where c': "c' \<in> set features" "countryFeature item = geometry c'"
      "countryName item = countryNameOf c'" "turf_bbox g (geometry c') = Inr (itemBbox item)"
      using countriesWithBbox_origin by blast
    from c c' have "\<not> outside_bbox pt (itemBbox item)
        \<and> turf_booleanPointInPolygon g pt (geometry c') = Inr True"
      by (simp add: containsPoint_def)
    with p pt n c' show "\<exists>c\<in>set features. \<exists>p\<in>set places. \<exists>pt b. placePoint p = Some pt
          \<and> countryNameOf c = n \<and> turf_bbox g (geometry c) = Inr b \<and> \<not> outside_bbox pt b
          \<and> turf_booleanPointInPolygon g pt (geometry c) = Inr True"
      by metis
  qed
qed

theorem visited_names_point_in_polygon_witness:
  "\<exists>c\<in>set [country_named ''Bern'' [3, 4], country_named ''Aland'' [3]].
     \<exists>p\<in>set [place_at ''harbour'' (7 / 2) (1 / 2), place_at ''pier'' (9 / 2) (1 / 2)].
       \<exists>pt b. placePoint p = Some pt \<and> countryNameOf c = ''Bern''
         \<and> turf_bbox strip (geometry c) = Inr b \<and> \<not> outside_bbox pt b
         \<and> turf_booleanPointInPolygon strip pt (geometry c) = Inr True"
proof -
  have "''Bern'' \<in> set (list (visitedCountriesData strip
      [country_named ''Bern'' [3, 4], country_named ''Aland'' [3]]
      [place_at ''harbour'' (7 / 2) (1 / 2), place_at ''pier'' (9 / 2) (1 / 2)]))"
    by (simp add: visited_example)
  with visited_names_point_in_polygon
    [of "''Bern''" strip "[country_named ''Bern'' [3, 4], country_named ''Aland'' [3]]"
      "[place_at ''harbour'' (7 / 2) (1 / 2), place_at ''pier'' (9 / 2) (1 / 2)]"]
  show ?thesis by blast
qed

text \<open>
  C4. Without places the result is count 0 and the empty list. In every case the list
  has no duplicates, is sorted (in the lexicographic order of the strings' characters,
  which is how \<open>sort\<close> without a comparator orders strings), and the count is its
  length.
\<close>

theorem visited_sorted_distinct_count:
  "visitedCountriesData g features [] = \<lparr>count = 0, list = []\<rparr>
   \<and> distinct (list (visitedCountriesData g features places))
   \<and> sorted (list (visitedCountriesData g features places))
   \<and> count (visitedCountriesData g features places)
       = length (list (visitedCountriesData g features places))"
proof (intro conjI)
  show "visitedCountriesData g features [] = \<lparr>count = 0, list = []\<rparr>"
    by (simp add: visitedCountriesData_def)
next
  have "distinct (visitPlaces g (countriesWithBbox g features) [] places)"
    by (rule distinct_visitPlaces) simp
  then show "distinct (list (visitedCountriesData g features places))"
    by (simp add: visitedCountriesData_def Let_def)
next
  show "sorted (list (visitedCountriesData g features places))"
    by (simp add: visitedCountriesData_def Let_def)
next
  show "count (visitedCountriesData g features places)
       = length (list (visitedCountriesData g features places))"
    by (simp add: visitedCountriesData_def Let_def)
qed

theorem visited_sorted_distinct_count_witness:
  "visitedCountriesData strip [country_named ''Bern'' [3, 4]] [] = \<lparr>count = 0, list = []\<rparr>
   \<and> distinct (list (visitedCountriesData strip [country_named ''Bern'' [3, 4]] [place_at ''harbour'' (7 / 2) (1 / 2)]))"
  using visited_sorted_distinct_count
    [of strip "[country_named ''Bern'' [3, 4]]" "[place_at ''harbour'' (7 / 2) (1 / 2)]"]
  by simp

section \<open>Properties of the disk-coverage matcher\<close>

lemma no_overlap_iff: "no_overlap a b \<longleftrightarrow> \<not> boxes_overlap a b"
  by (cases a; cases b) auto

lemma common_point_overlap:
  "\<not> outside_bbox p a \<Longrightarrow> \<not> outside_bbox p b \<Longrightarrow> \<not> no_overlap a b"
  by (cases p; cases a; cases b) auto

text \<open>
  The bounding box check skips no pair that the tests after it would accept, for a
  geometry in which a bounding box encloses every point that the point-in-polygon
  test accepts, the centroid of a feature lies in the feature's box, the centre stored
  with a disk lies in the box of the disk's polygon, and two features that intersect
  have a point in common. Whether the library is such a geometry is not decided by
  the code of the repository.
\<close>

lemma box_check_keeps_accepted_pairs:
  assumes enclosed: "\<And>p x b. turf_booleanPointInPolygon g p x = Inr True \<Longrightarrow> turf_bbox g x = Inr b
      \<Longrightarrow> \<not> outside_bbox p b"
    and common: "\<And>x y. turf_booleanIntersects g x y = Inr True
      \<Longrightarrow> \<exists>p. turf_booleanPointInPolygon g p x = Inr True \<and> turf_booleanPointInPolygon g p y = Inr True"
    and cbox: "turf_bbox g feature = Inr cbox"
    and dbox: "turf_bbox g (polygon circle) = Inr dbox"
    and centroid: "turf_centroid g feature = Inr centroid" "\<not> outside_bbox centroid cbox"
    and centre: "\<not> outside_bbox (properties_lng circle, properties_lat circle) dbox"
    and accepted: "turf_booleanPointInPolygon g centroid (polygon circle) = Inr True
      \<or> turf_booleanPointInPolygon g (properties_lng circle, properties_lat circle) feature = Inr True
      \<or> turf_booleanIntersects g feature (polygon circle) = Inr True"
  shows "\<not> no_overlap cbox dbox"
proof -
  from accepted consider
      (a) "turf_booleanPointInPolygon g centroid (polygon circle) = Inr True"
    | (b) "turf_booleanPointInPolygon g (properties_lng circle, properties_lat circle) feature = Inr True"
    | (c) "turf_booleanIntersects g feature (polygon circle) = Inr True"
    by blast
  then show ?thesis
  proof cases
    case a
    then have "\<not> outside_bbox centroid dbox"
      using dbox by (rule enclosed)
    with centroid(2) show ?thesis
      by (rule common_point_overlap)
  next
    case b
    then have "\<not> outside_bbox (properties_lng circle, properties_lat circle) cbox"
      using cbox by (rule enclosed)
    then show ?thesis
      using centre by (rule common_point_overlap)
  next
    case c
    then obtain p where p: "turf_booleanPointInPolygon g p feature = Inr True"
      "turf_booleanPointInPolygon g p (polygon circle) = Inr True"
      using common by blast
    have "\<not> outside_bbox p cbox"
      using p(1) cbox by (rule enclosed)
    moreover have "\<not> outside_bbox p dbox"
      using p(2) dbox by (rule enclosed)
    ultimately show ?thesis
      by (rule common_point_overlap)
  qed
qed

lemma circleBounds_success:
  "\<forall>d\<in>set ds. turf_bbox g (polygon d) = Inr (diskBox d) \<Longrightarrow>
     circleBounds g ds = Inr (map (\<lambda>d. (d, diskBox d)) ds)"
  by (induction ds) simp_all

lemma scan_prefix:
  assumes "turf_centroid g feature = Inr centroid"
    and "\<forall>d\<in>set ds. turf_booleanPointInPolygon g centroid (polygon d) = Inr (centroidInDisk d)"
    and "\<forall>d\<in>set ds. turf_booleanPointInPolygon g (properties_lng d, properties_lat d) feature
           = Inr (centreInCountry d)"
    and "\<forall>d\<in>set ds. turf_distance g centroid (properties_lng d, properties_lat d) = Inr (distanceTo d)"
  shows "scan g feature countryBox (map (\<lambda>d. (d, diskBox d)) ds @ later) =
     (if isCountryCovered countryBox diskBox centroidInDisk centreInCountry
            (\<lambda>d. turf_booleanIntersects g feature (polygon d)) distanceTo ds
      then Inr True else scan g feature countryBox later)"
  using assms
proof (induction ds)
  case Nil
  show ?case by simp
next
  case (Cons d ds)
  then have IH: "scan g feature countryBox (map (\<lambda>d. (d, diskBox d)) ds @ later) =
     (if isCountryCovered countryBox diskBox centroidInDisk centreInCountry
            (\<lambda>d. turf_booleanIntersects g feature (polygon d)) distanceTo ds
      then Inr True else scan g feature countryBox later)"
    by simp
  from Cons.prems have here:
    "turf_booleanPointInPolygon g centroid (polygon d) = Inr (centroidInDisk d)"
    "turf_booleanPointInPolygon g (properties_lng d, properties_lat d) feature = Inr (centreInCountry d)"
    "turf_distance g centroid (properties_lng d, properties_lat d) = Inr (distanceTo d)"
    by simp_all
  show ?case
    by (cases "turf_booleanIntersects g feature (polygon d)")
      (simp_all add: Cons.prems(1) here IH no_overlap_iff mult.commute)
qed

text \<open>
  C1. The matcher that \<open>isCountryScratched\<close> builds answers as the tiered algorithm of
  the spec does: disk by disk in order, a disk whose box does not overlap the
  country's is skipped, otherwise the country is covered if its centroid is inside
  the disk, else if the disk's centre is inside the country, else if the intersection
  test says so, or, when that test raises, if the distance from centroid to centre is
  at most 1.5 times \<open>RADIUS_KM\<close>. Here \<open>ds\<close> are the disks the loop examines, on which
  the centroid, the point-in-polygon tests and the distance are computed without an
  exception, and \<open>later\<close> the disks after them: either there are none, and the answer is
  \<open>false\<close> exactly when no disk matched, or a disk of \<open>ds\<close> matched, and the answer is
  \<open>true\<close> whatever the disks of \<open>later\<close> are.
\<close>

theorem isCountryScratched_tiered:
  assumes "turf_bbox g (geometry c) = Inr countryBox"
    and "turf_centroid g (geometry c) = Inr centroid"
    and "\<forall>d\<in>set (ds @ later). turf_bbox g (polygon d) = Inr (diskBox d)"
    and "\<forall>d\<in>set ds. turf_booleanPointInPolygon g centroid (polygon d) = Inr (centroidInDisk d)"
    and "\<forall>d\<in>set ds. turf_booleanPointInPolygon g (properties_lng d, properties_lat d) (geometry c)
           = Inr (centreInCountry d)"
    and "\<forall>d\<in>set ds. turf_distance g centroid (properties_lng d, properties_lat d) = Inr (distanceTo d)"
    and "later = [] \<or> isCountryCovered countryBox diskBox centroidInDisk centreInCountry
           (\<lambda>d. turf_booleanIntersects g (geometry c) (polygon d)) distanceTo ds"
  shows "\<exists>f. isCountryScratched g (ds @ later) = Inr f
    \<and> f c = Inr (isCountryCovered countryBox diskBox centroidInDisk centreInCountry
                  (\<lambda>d. turf_booleanIntersects g (geometry c) (polygon d)) distanceTo ds)"
proof (cases "ds @ later = []")
  case True
  then show ?thesis
    by (simp add: isCountryScratched_def)
next
  case False
  have bounds: "circleBounds g (ds @ later) = Inr (map (\<lambda>d. (d, diskBox d)) (ds @ later))"
    using assms(3) by (rule circleBounds_success)
  have "scan g (geometry c) countryBox
          (map (\<lambda>d. (d, diskBox d)) ds @ map (\<lambda>d. (d, diskBox d)) later) =
     (if isCountryCovered countryBox diskBox centroidInDisk centreInCountry
            (\<lambda>d. turf_booleanIntersects g (geometry c) (polygon d)) distanceTo ds
      then Inr True else scan g (geometry c) countryBox (map (\<lambda>d. (d, diskBox d)) later))"
    using assms(2,4,5,6) by (rule scan_prefix)
  with assms(7) have "scan g (geometry c) countryBox (map (\<lambda>d. (d, diskBox d)) (ds @ later)) =
     Inr (isCountryCovered countryBox diskBox centroidInDisk centreInCountry
            (\<lambda>d. turf_booleanIntersects g (geometry c) (polygon d)) distanceTo ds)"
    by auto
  then have "matcher g (map (\<lambda>d. (d, diskBox d)) (ds @ later)) c =
     Inr (isCountryCovered countryBox diskBox centroidInDisk centreInCountry
            (\<lambda>d. turf_booleanIntersects g (geometry c) (polygon d)) distanceTo ds)"
    by (simp add: matcher_def matcher_try_def assms(1))
  with False bounds show ?thesis
    by (simp add: isCountryScratched_def)
qed

theorem isCountryScratched_tiered_witness:
  "\<exists>f. isCountryScratched strip ([far_disk, folded_disk] @ [far_disk]) = Inr f
     \<and> f (country_named ''Bern'' [3, 4]) = Inr True"
proof -
  let ?c = "country_named ''Bern'' [3, 4]"
  let ?ds = "[far_disk, folded_disk]"
  let ?diskBox = "\<lambda>d :: nat list disk. (real (Min (set (polygon d))), 0 :: real, real (Max (set (polygon d))) + 1, 1 :: real)"
  let ?inDisk = "\<lambda>d :: nat list disk. list_ex (\<lambda>i. real i \<le> 4 \<and> 4 \<le> real i + 1) (polygon d)"
  let ?inCountry = "\<lambda>d :: nat list disk. list_ex (\<lambda>i. real i \<le> properties_lng d \<and> properties_lng d \<le> real i + 1) [3, 4]
      \<and> 0 \<le> properties_lat d \<and> properties_lat d \<le> 1"
  let ?dist = "\<lambda>d :: nat list disk. \<bar>4 - properties_lng d\<bar> + \<bar>1 / 2 - properties_lat d\<bar>"
  have a: "turf_bbox strip (geometry ?c) = Inr (3, 0, 5, 1)"
    by (simp add: strip_def strip_bbox_def country_named_def)
  have b: "turf_centroid strip (geometry ?c) = Inr (4, 1 / 2)"
    by (simp add: strip_def strip_centroid_def country_named_def)
  have c: "\<forall>d\<in>set (?ds @ [far_disk]). turf_bbox strip (polygon d) = Inr (?diskBox d)"
    by (simp add: strip_def strip_bbox_def far_disk_def folded_disk_def)
  have d: "\<forall>d\<in>set ?ds. turf_booleanPointInPolygon strip (4, 1 / 2) (polygon d) = Inr (?inDisk d)"
    by (simp add: strip_def far_disk_def folded_disk_def)
  have e: "\<forall>d\<in>set ?ds. turf_booleanPointInPolygon strip (properties_lng d, properties_lat d) (geometry ?c)
      = Inr (?inCountry d)"
    by (simp add: strip_def far_disk_def folded_disk_def country_named_def)
  have f: "\<forall>d\<in>set ?ds. turf_distance strip (4, 1 / 2) (properties_lng d, properties_lat d) = Inr (?dist d)"
    by (simp add: strip_def far_disk_def folded_disk_def)
  have g: "isCountryCovered (3, 0, 5, 1) ?diskBox ?inDisk ?inCountry
      (\<lambda>d. turf_booleanIntersects strip (geometry ?c) (polygon d)) ?dist ?ds = True"
    by (simp add: strip_def strip_intersects_def far_disk_def folded_disk_def country_named_def RADIUS_KM_def)
  have h: "[far_disk] = [] \<or> isCountryCovered (3, 0, 5, 1) ?diskBox ?inDisk ?inCountry
      (\<lambda>d. turf_booleanIntersects strip (geometry ?c) (polygon d)) ?dist ?ds"
    using g by blast
  from isCountryScratched_tiered [OF a b c d e f h, unfolded g] show ?thesis .
qed

text \<open>
  The answer of the spec's algorithm does not depend on the order of the disks: the
  country is covered exactly when some disk of the list matches.
\<close>

lemma isCountryCovered_iff:
  "isCountryCovered countryBox diskBox centroidInDisk centreInCountry intersection distanceTo ds \<longleftrightarrow>
     (\<exists>d\<in>set ds. boxes_overlap countryBox (diskBox d)
        \<and> (centroidInDisk d \<or> centreInCountry d
            \<or> (case intersection d of Inr b \<Rightarrow> b | Inl e \<Rightarrow> distanceTo d \<le> 1.5 * RADIUS_KM)))"
  by (induction ds) auto









section \<open>Properties of the area aggregation\<close>

lemma mergeLoop_failed_union:
  "\<forall>f\<in>set fs. \<exists>e. turf_union g merged f = Inl e \<Longrightarrow> mergeLoop g merged fs = merged"
  by (induction fs) auto

lemma calculateTotalArea_single:
  "turf_area g f = Inr a \<Longrightarrow> calculateTotalArea g [f] = a / 1000000"
  by (simp add: calculateTotalArea_def)

lemma calculateTotalArea_failed_union:
  assumes "turf_union g a b = Inl e" and "turf_area g a = Inr x"
  shows "calculateTotalArea g [a, b] = x / 1000000"
  using assms by (simp add: calculateTotalArea_def)

text \<open>
  C2. The union of the first disk with a disk that overlaps itself raises. The merged
  collection is then the first disk alone, and the total is the area of the first
  disk: the second disk, whose own area is 1, is not counted.
\<close>

theorem failed_union_drops_disk:
  "turf_union strip [1] [2, 2] = Inl GeometryError
   \<and> mergeCircles strip [[1], [2, 2]] = [[1]]
   \<and> calculateTotalArea strip [[1], [2, 2]] = 1
   \<and> calculateTotalArea strip [[1]] = 1
   \<and> calculateTotalArea strip [[2, 2]] = 1"
  by (simp add: calculateTotalArea_def strip_def strip_union_def strip_area_def)

text \<open>
  C7. Every union with the disk \<open>[2, 2]\<close> raises. The two disks \<open>[1]\<close> and \<open>[3]\<close> have
  the total 2; with the disk \<open>[2, 2]\<close> added in front of them the merged collection is
  that disk alone and the total is 1: adding a disk has lowered the total.
\<close>

theorem failed_union_lowers_total:
  "turf_union strip [2, 2] [1] = Inl GeometryError
   \<and> turf_union strip [2, 2] [3] = Inl GeometryError
   \<and> calculateTotalArea strip [[1], [3]] = 2
   \<and> mergeCircles strip [[2, 2], [1], [3]] = [[2, 2]]
   \<and> calculateTotalArea strip [[2, 2], [1], [3]] = 1"
  by (simp add: calculateTotalArea_def strip_def strip_union_def strip_area_def List.card_set)

lemma mergeLoop_pts:
  assumes "\<And>a b. turf_union g a b = Inr (u a b)"
    and "\<And>a b. pts (u a b) = pts a \<union> pts b"
  shows "pts (mergeLoop g merged fs) = pts merged \<union> (\<Union>f\<in>set fs. pts f)"
proof (induction fs arbitrary: merged)
  case Nil
  show ?case by simp
next
  case (Cons f fs)
  have "mergeLoop g merged (f # fs) = mergeLoop g (u merged f) fs"
    by (simp add: assms(1))
  then show ?case
    by (auto simp: Cons.IH assms(2))
qed

lemma mergeCircles_pts:
  assumes "\<And>a b. turf_union g a b = Inr (u a b)"
    and "\<And>a b. pts (u a b) = pts a \<union> pts b"
    and "fs \<noteq> []"
  shows "\<exists>m. mergeCircles g fs = [m] \<and> pts m = (\<Union>f\<in>set fs. pts f)"
proof (cases fs)
  case Nil
  with assms(3) show ?thesis by simp
next
  case (Cons f rest)
  show ?thesis
  proof (cases rest)
    case Nil
    with Cons show ?thesis by simp
  next
    case (Cons f' rest')
    with \<open>fs = f # rest\<close> have "mergeCircles g fs = [mergeLoop g f rest]"
      by simp
    moreover have "pts (mergeLoop g f rest) = pts f \<union> (\<Union>f\<in>set rest. pts f)"
      using assms(1,2) by (rule mergeLoop_pts)
    ultimately show ?thesis
      using \<open>fs = f # rest\<close> by simp
  qed
qed

lemma calculateTotalArea_merged:
  assumes "\<And>a b. turf_union g a b = Inr (u a b)"
    and "\<And>a b. pts (u a b) = pts a \<union> pts b"
    and "\<And>a. turf_area g a = Inr (ar a)"
    and "fs \<noteq> []"
  shows "\<exists>m. pts m = (\<Union>f\<in>set fs. pts f) \<and> calculateTotalArea g fs = ar m / 1000000"
proof -
  from mergeCircles_pts [of g u pts fs, OF assms(1,2,4)]
  obtain m where m: "mergeCircles g fs = [m]" "pts m = (\<Union>f\<in>set fs. pts f)"
    by blast
  then have "calculateTotalArea g fs = ar m / 1000000"
    using assms(3,4) by (simp add: calculateTotalArea_def)
  with m show ?thesis by blast
qed

text \<open>
  Where no union raises the total behaves as expected. For a geometry whose union
  never raises and covers exactly the points of both arguments, and whose area never
  raises, is not negative and grows with the set of points covered: adding a disk
  anywhere in the collection does not decrease the total, and adding a disk that lies
  within a disk of the collection leaves the total as it is.
\<close>

lemma total_area_monotone_without_failures:
  assumes "\<And>a b. turf_union g a b = Inr (u a b)"
    and "\<And>a b. pts (u a b) = pts a \<union> pts b"
    and "\<And>a. turf_area g a = Inr (ar a)"
    and "\<And>a. 0 \<le> ar a"
    and "\<And>a b. pts a \<subseteq> pts b \<Longrightarrow> ar a \<le> ar b"
  shows "calculateTotalArea g (xs @ ys) \<le> calculateTotalArea g (xs @ d # ys)
    \<and> ((\<exists>e\<in>set (xs @ ys). pts d \<subseteq> pts e)
         \<longrightarrow> calculateTotalArea g (xs @ d # ys) = calculateTotalArea g (xs @ ys))"
proof -
  from calculateTotalArea_merged [of g u pts ar "xs @ d # ys", OF assms(1,2,3)]
  obtain m' where m': "pts m' = (\<Union>f\<in>set (xs @ d # ys). pts f)"
    "calculateTotalArea g (xs @ d # ys) = ar m' / 1000000"
    by auto
  show ?thesis
  proof (cases "xs @ ys = []")
    case True
    then have "calculateTotalArea g (xs @ ys) = 0"
      by (simp add: calculateTotalArea_def)
    moreover have "0 \<le> ar m' / 1000000"
      using assms(4) by simp
    ultimately show ?thesis
      using m'(2) True by simp
  next
    case False
    from calculateTotalArea_merged [of g u pts ar "xs @ ys", OF assms(1,2,3) False]
    obtain m where m: "pts m = (\<Union>f\<in>set (xs @ ys). pts f)"
      "calculateTotalArea g (xs @ ys) = ar m / 1000000"
      by auto
    from m(1) m'(1) have sub: "pts m \<subseteq> pts m'"
      by auto
    then have le: "ar m \<le> ar m'"
      by (rule assms(5))
    have eq: "ar m' = ar m" if "\<exists>e\<in>set (xs @ ys). pts d \<subseteq> pts e"
    proof -
      from that m(1) m'(1) have "pts m' \<subseteq> pts m"
        by auto
      then have "ar m' \<le> ar m"
        by (rule assms(5))
      with le show ?thesis by simp
    qed
    from le eq show ?thesis
      by (simp add: m(2) m'(2))
  qed
qed

text \<open>
  A disk added at the end of the collection never lowers the total, also when unions
  raise, as long as a union that succeeds has at least the area of its first argument.
\<close>

lemma mergeLoop_append: "mergeLoop g merged (fs @ gs) = mergeLoop g (mergeLoop g merged fs) gs"
  by (induction fs arbitrary: merged) (auto split: sum.splits)

lemma mergeCircles_Cons: "mergeCircles g (f # rest) = [mergeLoop g f rest]"
  by (cases rest) simp_all

lemma total_area_append_monotone:
  assumes area: "\<And>a. turf_area g a = Inr (ar a)"
    and nonneg: "\<And>a. 0 \<le> ar a"
    and grow: "\<And>a b u. turf_union g a b = Inr u \<Longrightarrow> ar a \<le> ar u"
  shows "calculateTotalArea g fs \<le> calculateTotalArea g (fs @ [d])"
proof (cases fs)
  case Nil
  then show ?thesis
    using nonneg [of d] by (simp add: calculateTotalArea_def area)
next
  case (Cons f rest)
  have before: "calculateTotalArea g fs = ar (mergeLoop g f rest) / 1000000"
    unfolding Cons by (simp add: calculateTotalArea_def mergeCircles_Cons area del: mergeCircles.simps)
  have "mergeCircles g (fs @ [d]) = [mergeLoop g (mergeLoop g f rest) [d]]"
    unfolding Cons using mergeCircles_Cons [of g f "rest @ [d]"] by (simp add: mergeLoop_append)
  then have after: "calculateTotalArea g (fs @ [d]) = ar (mergeLoop g (mergeLoop g f rest) [d]) / 1000000"
    by (simp add: calculateTotalArea_def area)
  have "ar (mergeLoop g f rest) \<le> ar (mergeLoop g (mergeLoop g f rest) [d])"
    by (cases "turf_union g (mergeLoop g f rest) d") (simp_all add: grow)
  with before after show ?thesis
    by simp
qed

end
